theory Spec2Isabelle
  imports Complex_Main "HOL-Library.Sublist" "HOL-Library.Char_ord" "HOL-Library.List_Lexorder"
begin

section \<open>The bandpass report parser of \<^verbatim>\<open>src/utils/dataset_utils.py\<close>\<close>

text \<open>
  A Python \<^verbatim>\<open>str\<close> is modelled as a \<^typ>\<open>string\<close> whose characters are the code points
  below 256; a list of lines is a \<^typ>\<open>string list\<close>. A function that can raise returns
  \<open>py_error + 'a\<close>, with \<open>Inl\<close> the exception that leaves the function. The only
  exceptions the module can raise are Python's built-in ones: it defines no exception
  class of its own. What \<^verbatim>\<open>print\<close> writes to the console is not part of the model, and
  neither is the interpreter's recursion limit.

  The last constructor of \<open>py_error\<close> is no exception of Python. It marks the one place
  where the model stops: an array of channel indices that do not all fit numpy's
  \<^verbatim>\<open>int64\<close>. There numpy stores the channels with another dtype (\<^verbatim>\<open>uint64\<close>, \<^verbatim>\<open>float64\<close>
  or \<^verbatim>\<open>object\<close>, by the values and the version), and what the code does with such an
  array is not followed.
\<close>

datatype py_error =
  IndexError | ValueError | UnboundLocalError | UnicodeEncodeError | Outside_int64

subsection \<open>Strings\<close>

text \<open>\<^verbatim>\<open>s.startswith(p)\<close>.\<close>

fun starts_with :: "string \<Rightarrow> string \<Rightarrow> bool" where
  "starts_with [] s = True"
| "starts_with (p # ps) [] = False"
| "starts_with (p # ps) (c # cs) = (p = c \<and> starts_with ps cs)"

text \<open>\<^verbatim>\<open>p in s\<close> for two strings: \<open>p\<close> occurs in \<open>s\<close> as a contiguous substring.\<close>

fun py_in :: "string \<Rightarrow> string \<Rightarrow> bool" where
  "py_in p [] = (p = [])"
| "py_in p (c # cs) = (starts_with p (c # cs) \<or> py_in p cs)"

text \<open>
  The characters that \<^verbatim>\<open>str.split()\<close>, \<^verbatim>\<open>\s\<close> and \<^verbatim>\<open>\S\<close> treat as whitespace, among the
  code points below 256: tab, line feed, vertical tab, form feed, carriage return, the
  four separators 0x1C to 0x1F, the space, 0x85 and 0xA0.
\<close>

definition is_space :: "char \<Rightarrow> bool" where
  "is_space c = (of_char c \<in> {9, 10, 11, 12, 13, 28, 29, 30, 31, 32, 133, 160 :: nat})"

definition non_space :: "char \<Rightarrow> bool" where
  "non_space c = (\<not> is_space c)"

text \<open>\<^verbatim>\<open>\d\<close>: below 256 the only decimal digits are \<^verbatim>\<open>0\<close> to \<^verbatim>\<open>9\<close>.\<close>

definition is_digit :: "char \<Rightarrow> bool" where
  "is_digit c = (48 \<le> (of_char c :: nat) \<and> (of_char c :: nat) \<le> 57)"

text \<open>The character class \<^verbatim>\<open>[a-zA-Z0-9]\<close>.\<close>

definition is_alnum :: "char \<Rightarrow> bool" where
  "is_alnum c = (let n = (of_char c :: nat) in
     (97 \<le> n \<and> n \<le> 122) \<or> (65 \<le> n \<and> n \<le> 90) \<or> (48 \<le> n \<and> n \<le> 57))"

definition newline :: char where
  "newline = CHR 0x0A"

text \<open>\<^verbatim>\<open>s.rstrip('\n')\<close>: every trailing line feed is removed.\<close>

definition rstrip_newline :: "string \<Rightarrow> string" where
  "rstrip_newline s = rev (dropWhile (\<lambda>c. c = newline) (rev s))"

text \<open>
  A string as an element of a numpy array of strings, which has a fixed width and is
  filled up with NUL: an element read from the array ends before its trailing NUL
  characters.
\<close>

definition rstrip_nul :: "string \<Rightarrow> string" where
  "rstrip_nul s = rev (dropWhile (\<lambda>c. c = CHR 0x00) (rev s))"

text \<open>
  \<^verbatim>\<open>s.split()\<close>: the maximal runs of non-whitespace characters, in order. The first
  argument is the run being read.
\<close>

fun split_ws :: "string \<Rightarrow> string \<Rightarrow> string list" where
  "split_ws cur [] = (if cur = [] then [] else [cur])"
| "split_ws cur (c # cs) =
     (if is_space c then (if cur = [] then split_ws [] cs else cur # split_ws [] cs)
      else split_ws (cur @ [c]) cs)"

definition py_split :: "string \<Rightarrow> string list" where
  "py_split s = split_ws [] s"

text \<open>
  \<^verbatim>\<open>M.split('|', 1)\<close>: the text before the first bar and the text after it, or the whole
  string alone when it has no bar.
\<close>

definition split_bar :: "string \<Rightarrow> string list" where
  "split_bar M =
     (if CHR ''|'' \<in> set M
      then [takeWhile (\<lambda>c. c \<noteq> CHR ''|'') M, tl (dropWhile (\<lambda>c. c \<noteq> CHR ''|'') M)]
      else [M])"

subsection \<open>Slices\<close>

text \<open>
  A Python slice bound: a negative bound counts from the end, and every bound is clipped
  to the list.
\<close>

definition slice_bound :: "nat \<Rightarrow> int \<Rightarrow> nat" where
  "slice_bound n i = (if i < 0 then nat (max 0 (int n + i)) else min (nat i) n)"

text \<open>\<^verbatim>\<open>xs[lo:hi]\<close>, \<^verbatim>\<open>xs[lo:]\<close> and \<^verbatim>\<open>xs[:hi]\<close>.\<close>

definition py_slice :: "'a list \<Rightarrow> int \<Rightarrow> int \<Rightarrow> 'a list" where
  "py_slice xs lo hi =
     take (slice_bound (length xs) hi - slice_bound (length xs) lo)
          (drop (slice_bound (length xs) lo) xs)"

definition slice_from :: "'a list \<Rightarrow> int \<Rightarrow> 'a list" where
  "slice_from xs lo = drop (slice_bound (length xs) lo) xs"

definition slice_to :: "'a list \<Rightarrow> int \<Rightarrow> 'a list" where
  "slice_to xs hi = take (slice_bound (length xs) hi) xs"

subsection \<open>Section Extractor\<close>

text \<open>
  The indices of the lines that contain a marker, in increasing order: the loop
  \<^verbatim>\<open>for i, L in enumerate(lines): if marker in L: split.append(i)\<close>.
\<close>

definition marker_indices :: "string \<Rightarrow> string list \<Rightarrow> nat list" where
  "marker_indices m lines = filter (\<lambda>i. py_in m (lines ! i)) [0..<length lines]"

text \<open>
  \<^verbatim>\<open>extract_solutions\<close>, from the list that \<^verbatim>\<open>readlines\<close> returns. With no marker line the
  \<^verbatim>\<open>else\<close> branch reads \<^verbatim>\<open>solutions_split[0]\<close> of an empty list.
\<close>

definition extract_solutions :: "string list \<Rightarrow> py_error + string list list" where
  "extract_solutions lines =
     (let solutions_split = marker_indices ''SpwID'' lines in
      if length solutions_split > 1 then
        Inr (map (\<lambda>i. py_slice lines (int (solutions_split ! i)) (int (solutions_split ! (i + 1))))
               [0..<length solutions_split - 1]
             @ [slice_from lines (int (last solutions_split))])
      else (case solutions_split of
              [] \<Rightarrow> Inl IndexError
            | s0 # _ \<Rightarrow> Inr [slice_from lines (int s0)]))"

subsection \<open>Antenna names\<close>

text \<open>
  \<^verbatim>\<open>re.findall(r'Ant = ([a-zA-Z0-9]+)', header_line)\<close>: the scan goes from left to right;
  where the literal is followed by at least one letter or digit the longest such run is a
  name and the scan goes on after it, otherwise the scan moves one character on.
\<close>

function antenna_names_of :: "string \<Rightarrow> string list" where
  "antenna_names_of [] = []"
| "antenna_names_of (c # cs) =
     (if starts_with ''Ant = '' (c # cs) \<and> takeWhile is_alnum (drop 6 (c # cs)) \<noteq> []
      then takeWhile is_alnum (drop 6 (c # cs))
             # antenna_names_of (dropWhile is_alnum (drop 6 (c # cs)))
      else antenna_names_of cs)"
  by pat_completeness auto
termination
proof (relation "measure length")
  fix c :: char and cs :: string
  have "length (dropWhile is_alnum (drop 6 (c # cs))) \<le> length (drop 6 (c # cs))"
    by (rule length_dropWhile_le)
  then show "(dropWhile is_alnum (drop 6 (c # cs)), c # cs) \<in> measure length"
    by simp
qed simp_all

text \<open>\<^verbatim>\<open>get_antenna_names\<close>: \<^verbatim>\<open>section[0]\<close> raises on an empty section.\<close>

definition get_antenna_names :: "string list \<Rightarrow> py_error + string list" where
  "get_antenna_names section =
     (case section of
        [] \<Rightarrow> Inl IndexError
      | header_line # _ \<Rightarrow> Inr (antenna_names_of header_line))"

definition remove_newline_chars :: "string list \<Rightarrow> string list" where
  "remove_newline_chars solution = map rstrip_newline solution"

subsection \<open>Header Deduplicator\<close>

text \<open>
  The scan of \<^verbatim>\<open>remove_duplicate_heders\<close>: the loop over \<^verbatim>\<open>enumerate(sol)\<close> from index
  \<open>i\<close> on, with the current value of \<^verbatim>\<open>last_header\<close> (\<open>None\<close> is Python's \<^verbatim>\<open>None\<close>). It
  returns the index of the marker line at which the loop leaves for the recursive call,
  or \<open>None\<close> when the loop runs to its end. The header is read from \<^verbatim>\<open>sol[i-1:]\<close>, which
  for \<open>i = 0\<close> is the slice \<^verbatim>\<open>sol[-1:]\<close>.
\<close>

function find_duplicate :: "string list \<Rightarrow> nat \<Rightarrow> string list option \<Rightarrow> py_error + nat option" where
  "find_duplicate sol i last_header =
     (if length sol \<le> i then Inr None
      else if py_in ''Time'' (sol ! i) then
        (case get_antenna_names (slice_from sol (int i - 1)) of
           Inl e \<Rightarrow> Inl e
         | Inr current_header \<Rightarrow>
             if last_header \<noteq> None \<and> Some current_header = last_header
                \<and> length current_header > 0
             then Inr (Some i)
             else find_duplicate sol (i + 1) (Some current_header))
      else find_duplicate sol (i + 1) last_header)"
  by pat_completeness auto
termination
  by (relation "measure (\<lambda>(sol, i, last_header). length sol - i)") auto

declare find_duplicate.simps [simp del]

lemma find_duplicate_bounds:
  "find_duplicate sol j lh = Inr (Some i) \<Longrightarrow> j \<le> i \<and> i < length sol \<and> (lh = None \<longrightarrow> j < i)"
proof (induction sol j lh rule: find_duplicate.induct)
  case (1 sol j lh)
  show ?case
  proof (cases "length sol \<le> j")
    case True
    with "1.prems" show ?thesis
      by (simp add: find_duplicate.simps [of sol j lh])
  next
    case inside: False
    show ?thesis
    proof (cases "py_in ''Time'' (sol ! j)")
      case False
      with inside "1.prems" have "find_duplicate sol (j + 1) lh = Inr (Some i)"
        by (simp add: find_duplicate.simps [of sol j lh])
      with "1.IH"(2) [OF inside False] show ?thesis
        by auto
    next
      case True
      show ?thesis
      proof (cases "get_antenna_names (slice_from sol (int j - 1))")
        case (Inl e)
        with inside True "1.prems" show ?thesis
          by (simp add: find_duplicate.simps [of sol j lh])
      next
        case (Inr cur)
        show ?thesis
        proof (cases "lh \<noteq> None \<and> Some cur = lh \<and> length cur > 0")
          case dup: True
          with inside True Inr "1.prems" have "i = j"
            by (simp add: find_duplicate.simps [of sol j lh])
          with inside dup show ?thesis
            by auto
        next
          case nodup: False
          with inside True Inr "1.prems"
          have "find_duplicate sol (j + 1) (Some cur) = Inr (Some i)"
            by (auto simp: find_duplicate.simps [of sol j lh] split: if_splits)
          with "1.IH"(1) [OF inside True Inr nodup] show ?thesis
            by auto
        qed
      qed
    qed
  qed
qed

text \<open>
  \<^verbatim>\<open>remove_duplicate_heders(sol, last_header=None)\<close>. At the marker line \<open>i\<close> where the
  header equals the last one seen, the lines \<^verbatim>\<open>sol[:i-1] + sol[i+2:]\<close> are kept and the
  function calls itself on them, with \<^verbatim>\<open>last_header\<close> at its default.
\<close>

function remove_duplicate_heders :: "string list \<Rightarrow> string list option \<Rightarrow> py_error + string list" where
  "remove_duplicate_heders sol last_header =
     (case find_duplicate sol 0 last_header of
        Inl e \<Rightarrow> Inl e
      | Inr None \<Rightarrow> Inr sol
      | Inr (Some i) \<Rightarrow>
          remove_duplicate_heders (slice_to sol (int i - 1) @ slice_from sol (int i + 2)) None)"
  by pat_completeness auto
termination
proof (relation "inv_image (less_than <*lex*> less_than)
                   (\<lambda>(sol, lh). (if lh = None then 0 else 1 :: nat, length sol))")
  show "wf (inv_image (less_than <*lex*> less_than)
              (\<lambda>(sol, lh). (if lh = None then 0 else 1 :: nat, length sol)))"
    by (intro wf_inv_image wf_lex_prod wf_less_than)
next
  fix sol :: "string list" and last_header :: "string list option" and x2 i
  assume "find_duplicate sol 0 last_header = Inr x2" and "x2 = Some i"
  then have found: "find_duplicate sol 0 last_header = Inr (Some i)"
    by simp
  show "((slice_to sol (int i - 1) @ slice_from sol (int i + 2), None), sol, last_header)
          \<in> inv_image (less_than <*lex*> less_than)
              (\<lambda>(sol, lh). (if lh = None then 0 else 1 :: nat, length sol))"
  proof (cases last_header)
    case (Some h)
    then show ?thesis by simp
  next
    case None
    with find_duplicate_bounds [OF found] have "0 < i" and "i < length sol"
      by auto
    then have "length (slice_to sol (int i - 1) @ slice_from sol (int i + 2)) < length sol"
      by (auto simp: slice_to_def slice_from_def slice_bound_def)
    with None show ?thesis by simp
  qed
qed

declare remove_duplicate_heders.simps [simp del]

subsection \<open>Table Segmenter\<close>

text \<open>
  \<^verbatim>\<open>split_into_sections\<close>: a section starts one line before each marker line, so the
  start recorded for a marker on line 0 is \<open>-1\<close>. With no marker line
  \<^verbatim>\<open>sections_split[-1]\<close> raises.
\<close>

definition split_into_sections :: "string list \<Rightarrow> py_error + string list list" where
  "split_into_sections sol =
     (let sections_split = map (\<lambda>i. int i - 1) (marker_indices ''Time'' sol) in
      if sections_split = [] then Inl IndexError
      else Inr (map (\<lambda>i. py_slice sol (sections_split ! i) (sections_split ! (i + 1)))
                  [0..<length sections_split - 1]
                @ [slice_from sol (last sections_split)]))"

subsection \<open>Section Joiner\<close>

text \<open>
  The loop \<^verbatim>\<open>for L, M in zip(sections[0], sections[1])\<close> of \<^verbatim>\<open>join_sections\<close>: \<^verbatim>\<open>zip\<close>
  stops at the end of the shorter list. \<^verbatim>\<open>M[0]\<close> is the one-character string made of the
  first character of the line \<open>M\<close> and raises on an empty line; \<^verbatim>\<open>M.split('|',1)[1]\<close>
  raises on a line with no bar.
\<close>

fun join_rows :: "string list \<Rightarrow> string list \<Rightarrow> py_error + string list" where
  "join_rows (L # Ls) (M # Ms) =
     (case M of
        [] \<Rightarrow> Inl IndexError
      | m0 # _ \<Rightarrow>
          if [m0] = ''-nbsdfbkj'' then join_rows Ls Ms
          else (case split_bar M of
                  _ # after # _ \<Rightarrow>
                    (case join_rows Ls Ms of
                       Inl e \<Rightarrow> Inl e
                     | Inr table \<Rightarrow> Inr ((L @ after) # table))
                | _ \<Rightarrow> Inl IndexError))"
| "join_rows _ _ = Inr []"

text \<open>
  \<^verbatim>\<open>join_sections\<close>: one section is returned without its line 2; otherwise the first two
  sections are merged and the function calls itself. On an empty list the \<^verbatim>\<open>else\<close>
  branch reads \<^verbatim>\<open>sections[0]\<close>.
\<close>

fun join_sections :: "string list list \<Rightarrow> py_error + string list" where
  "join_sections [] = Inl IndexError"
| "join_sections [s] = Inr (slice_to s 2 @ slice_from s 3)"
| "join_sections (s0 # s1 # rest) =
     (case join_rows s0 s1 of
        Inl e \<Rightarrow> Inl e
      | Inr table \<Rightarrow> join_sections (table # rest))"

subsection \<open>The pipeline entry point\<close>

text \<open>
  \<^verbatim>\<open>parse_bandpass_text\<close>, from the lines of the report file. The local \<^verbatim>\<open>sol\<close> is
  assigned only inside \<^verbatim>\<open>if len(solutions) > 1\<close>; on the other branch the next statement
  reads an unassigned local.
\<close>

definition parse_bandpass_text :: "string list \<Rightarrow> py_error + string list" where
  "parse_bandpass_text lines =
     (case extract_solutions lines of
        Inl e \<Rightarrow> Inl e
      | Inr solutions \<Rightarrow>
          if length solutions > 1 then
            (case remove_duplicate_heders (remove_newline_chars (solutions ! 0)) None of
               Inl e \<Rightarrow> Inl e
             | Inr sol1 \<Rightarrow>
                 (case remove_duplicate_heders sol1 None of
                    Inl e \<Rightarrow> Inl e
                  | Inr sol2 \<Rightarrow>
                      (case split_into_sections sol2 of
                         Inl e \<Rightarrow> Inl e
                       | Inr sections \<Rightarrow> join_sections sections)))
          else Inl UnboundLocalError)"

subsection \<open>Record Parser\<close>

text \<open>
  \<^verbatim>\<open>data_re.match(L)\<close> for the pattern \<^verbatim>\<open>(\S+)\s+(\S+)\s+(\d+)\|(.*)\<close>, anchored at the start
  of the line. Each greedy group can only end where its run of characters ends (one
  character earlier the next pattern item would have to match a character of the run
  itself), so the match is the one computed here: a run of non-whitespace, a run of
  whitespace, a second run of non-whitespace, a run of whitespace, a run of digits, a
  bar, and then every character up to the first line feed. The result holds the four
  groups.
\<close>

definition data_re_match :: "string \<Rightarrow> (string \<times> string \<times> string \<times> string) option" where
  "data_re_match L =
     (let g1 = takeWhile non_space L; r1 = dropWhile non_space L;
          w1 = takeWhile is_space r1; r2 = dropWhile is_space r1;
          g2 = takeWhile non_space r2; r3 = dropWhile non_space r2;
          w2 = takeWhile is_space r3; r4 = dropWhile is_space r3;
          g3 = takeWhile is_digit r4; r5 = dropWhile is_digit r4
      in if g1 \<noteq> [] \<and> w1 \<noteq> [] \<and> g2 \<noteq> [] \<and> w2 \<noteq> [] \<and> g3 \<noteq> [] \<and> starts_with ''|'' r5
         then Some (g1, g2, g3, takeWhile (\<lambda>c. c \<noteq> newline) (tl r5))
         else None)"

text \<open>\<^verbatim>\<open>int(s)\<close> on a string of decimal digits.\<close>

definition int_of_digits :: "string \<Rightarrow> int" where
  "int_of_digits s = foldl (\<lambda>n c. 10 * n + (int (of_char c) - 48)) 0 s"

text \<open>
  The numeric tokens of a data line: the flag character is deleted from the fourth group
  (\<^verbatim>\<open>rest.replace("F", "")\<close>) and what is left is split at whitespace.
\<close>

definition line_tokens :: "string \<Rightarrow> string list" where
  "line_tokens rest = py_split (filter (\<lambda>c. c \<noteq> CHR ''F'') rest)"

text \<open>
  One accepted data line: what the loop appends to \<^verbatim>\<open>times\<close>, \<^verbatim>\<open>fields\<close>,
  \<^verbatim>\<open>channel_list\<close>, \<^verbatim>\<open>amp_blocks\<close> and \<^verbatim>\<open>phs_blocks\<close>. The five lists grow together, so
  they are kept as one list of records. A 64-bit float is idealised as a \<^typ>\<open>real\<close>
  and a matrix is a list of rows.
\<close>

record data_rec =
  rec_time :: string
  rec_field :: string
  rec_ch :: int
  rec_amp :: "real list list"
  rec_phs :: "real list list"

text \<open>
  \<^verbatim>\<open>values.reshape(nants, npol, 2)[:, :, k]\<close>: entry \<open>(a, p)\<close> is the value at position
  \<open>2 * (a * npol + p) + k\<close>.
\<close>

definition block_of :: "nat \<Rightarrow> nat \<Rightarrow> nat \<Rightarrow> real list \<Rightarrow> real list list" where
  "block_of nants npol k vals =
     map (\<lambda>a. map (\<lambda>p. vals ! (2 * (a * npol + p) + k)) [0..<npol]) [0..<nants]"

text \<open>
  The loop \<^verbatim>\<open>for L in table\<close>. \<open>Inr None\<close> is the \<^verbatim>\<open>return None\<close> after the printed
  warning; \<open>Inl ValueError\<close> is \<^verbatim>\<open>float(x)\<close> raising on a token, where the argument
  \<open>pyfloat\<close> stands for \<^verbatim>\<open>float\<close> on the strings it accepts. A line that does not match is
  skipped.
\<close>

fun parse_lines ::
  "(string \<Rightarrow> real option) \<Rightarrow> nat \<Rightarrow> nat \<Rightarrow> string list \<Rightarrow> py_error + data_rec list option" where
  "parse_lines pyfloat npol nants [] = Inr (Some [])"
| "parse_lines pyfloat npol nants (L # Ls) =
     (case data_re_match L of
        None \<Rightarrow> parse_lines pyfloat npol nants Ls
      | Some (time, field, ch, rest) \<Rightarrow>
          if length (line_tokens rest) \<noteq> nants * 2 * npol then Inr None
          else (case those (map pyfloat (line_tokens rest)) of
                  None \<Rightarrow> Inl ValueError
                | Some vals \<Rightarrow>
                    (case parse_lines pyfloat npol nants Ls of
                       Inl e \<Rightarrow> Inl e
                     | Inr None \<Rightarrow> Inr None
                     | Inr (Some recs) \<Rightarrow>
                         Inr (Some (\<lparr>rec_time = time, rec_field = field,
                                     rec_ch = int_of_digits ch,
                                     rec_amp = block_of nants npol 0 vals,
                                     rec_phs = block_of nants npol 1 vals\<rparr> # recs)))))"

text \<open>The values of numpy's \<^verbatim>\<open>int64\<close>.\<close>

definition in_int64 :: "int \<Rightarrow> bool" where
  "in_int64 c = (- (2 ^ 63) \<le> c \<and> c < 2 ^ 63)"

text \<open>
  \<^verbatim>\<open>np.unique(channels)\<close> on an array of integers: its distinct elements, sorted.
\<close>

definition np_unique_ints :: "int list \<Rightarrow> int list" where
  "np_unique_ints xs = sort (remdups xs)"

text \<open>
  \<^verbatim>\<open>np.unique(np.array(xs))\<close> on a list of Python strings: the strings become the elements
  of an array of strings, so each loses its trailing NUL characters, and the distinct
  elements come back sorted by code points.
\<close>

definition np_unique_strs :: "string list \<Rightarrow> string list" where
  "np_unique_strs xs = sort (remdups (map rstrip_nul xs))"

text \<open>
  \<^verbatim>\<open>np.argsort\<close>: the indices that sort the array. For equal keys numpy's default sort
  promises no order; here they stay in their order of appearance.
\<close>

definition argsort :: "int list \<Rightarrow> nat list" where
  "argsort chs = sort_key (\<lambda>i. chs ! i) [0..<length chs]"

text \<open>\<^verbatim>\<open>amp * np.exp(1j * np.deg2rad(phs))\<close> on one element.\<close>

definition deg2rad :: "real \<Rightarrow> real" where
  "deg2rad x = x * pi / 180"

definition complex_gain :: "real \<Rightarrow> real \<Rightarrow> complex" where
  "complex_gain amp phs = complex_of_real amp * exp (\<i> * complex_of_real (deg2rad phs))"

text \<open>
  \<^verbatim>\<open>x.reshape(d0, d1, d2)\<close> of an array with the elements \<open>flat\<close> in row-major order: it
  raises unless the sizes agree, and entry \<open>(i, j, k)\<close> is element \<open>(i * d1 + j) * d2 + k\<close>.
\<close>

definition reshape3 :: "nat \<Rightarrow> nat \<Rightarrow> nat \<Rightarrow> 'a list \<Rightarrow> py_error + 'a list list list" where
  "reshape3 d0 d1 d2 flat =
     (if length flat \<noteq> d0 * d1 * d2 then Inl ValueError
      else Inr (map (\<lambda>i. map (\<lambda>j. take d2 (drop ((i * d1 + j) * d2) flat)) [0..<d1]) [0..<d0]))"

text \<open>\<^verbatim>\<open>x.swapaxes(0, 1)\<close> of an array of shape \<open>(d0, d1, d2)\<close>.\<close>

definition swapaxes01 :: "nat \<Rightarrow> nat \<Rightarrow> 'a list list list \<Rightarrow> 'a list list list" where
  "swapaxes01 d0 d1 x = map (\<lambda>j. map (\<lambda>i. x ! i ! j) [0..<d0]) [0..<d1]"

text \<open>
  The dictionary that \<^verbatim>\<open>caltable_to_dict\<close> returns: field \<open>cal_k\<close> is the value under
  the key \<open>k\<close>. The channels are the elements of an \<^verbatim>\<open>int64\<close> array.
\<close>

record caldict =
  cal_gains :: "complex list list list"
  cal_antennas :: "string list"
  cal_channels :: "int list"
  cal_polarizations :: "string list"
  cal_times :: "string list"
  cal_fields :: "string list"

text \<open>
  What \<^verbatim>\<open>caltable_to_dict\<close> does after the loop, from the accepted records: the unique
  times and fields, the sort by channel, the gains, the reshape and the swap of axes.
  \<^verbatim>\<open>np.array(channel_list)\<close> is an \<^verbatim>\<open>int64\<close> array when every channel fits; otherwise the
  model stops.
\<close>

definition assemble :: "nat \<Rightarrow> string list \<Rightarrow> data_rec list \<Rightarrow> py_error + caldict" where
  "assemble npol ants recs =
     (let nants = length ants;
          chs = map rec_ch recs;
          nchans = length (np_unique_ints chs);
          sort_idx = argsort chs;
          amp = map (\<lambda>i. map rec_amp recs ! i) sort_idx;
          phs = map (\<lambda>i. map rec_phs recs ! i) sort_idx;
          g = map2 (map2 (map2 complex_gain)) amp phs
      in if \<not> list_all in_int64 chs then Inl Outside_int64
         else case reshape3 nchans nants npol (concat (concat g)) of
                Inl e \<Rightarrow> Inl e
              | Inr g' \<Rightarrow>
                  Inr \<lparr>cal_gains = swapaxes01 nchans nants g',
                       cal_antennas = ants,
                       cal_channels = map (\<lambda>i. chs ! i) sort_idx,
                       cal_polarizations = [''pol0'', ''pol1''],
                       cal_times = np_unique_strs (map rec_time recs),
                       cal_fields = np_unique_strs (map rec_field recs)\<rparr>)"

text \<open>
  \<^verbatim>\<open>caltable_to_dict(table, npol=2)\<close>. \<open>Inr None\<close> is the value \<^verbatim>\<open>None\<close> returned from
  inside the loop, \<open>Inr (Some d)\<close> the dictionary.
\<close>

definition caltable_to_dict ::
  "(string \<Rightarrow> real option) \<Rightarrow> nat \<Rightarrow> string list \<Rightarrow> py_error + caldict option" where
  "caltable_to_dict pyfloat npol table =
     (case get_antenna_names table of
        Inl e \<Rightarrow> Inl e
      | Inr ants \<Rightarrow>
          (case parse_lines pyfloat npol (length ants) table of
             Inl e \<Rightarrow> Inl e
           | Inr None \<Rightarrow> Inr None
           | Inr (Some recs) \<Rightarrow>
               (case assemble npol ants recs of
                  Inl e \<Rightarrow> Inl e
                | Inr d \<Rightarrow> Inr (Some d))))"

text \<open>
  A reader for running the parser on plain decimal tokens: an optional sign, digits, and
  an optional point followed by digits, with a digit on at least one side of the point.
  Python's \<^verbatim>\<open>float\<close> reads these strings to these values (up to rounding); the other
  strings it reads (exponents, \<^verbatim>\<open>inf\<close>, \<^verbatim>\<open>nan\<close>) are left out here.
\<close>

definition nat_of_digits :: "string \<Rightarrow> nat" where
  "nat_of_digits s = foldl (\<lambda>n c. 10 * n + (of_char c - 48)) 0 s"

definition dec_unsigned :: "string \<Rightarrow> real option" where
  "dec_unsigned s =
     (let ip = takeWhile is_digit s; r = dropWhile is_digit s; fp = tl r
      in if r = [] \<and> ip \<noteq> [] then Some (real (nat_of_digits ip))
         else if starts_with ''.'' r \<and> list_all is_digit fp \<and> (ip \<noteq> [] \<or> fp \<noteq> [])
         then Some (real (nat_of_digits ip) + real (nat_of_digits fp) / 10 ^ length fp)
         else None)"

definition dec_float :: "string \<Rightarrow> real option" where
  "dec_float s =
     (case s of
        [] \<Rightarrow> None
      | c # cs \<Rightarrow>
          if c = CHR ''-'' then map_option uminus (dec_unsigned cs)
          else if c = CHR ''+'' then dec_unsigned cs
          else dec_unsigned s)"

subsection \<open>Persistence Layer\<close>













subsection \<open>Example inputs\<close>

text \<open>A report with one solution: one marker line, one header and one data line.\<close>

definition report1 :: "string list" where
  "report1 = map (\<lambda>s. s @ [newline])
     [''SpwID = 0'',
      ''Ant = A0 Ant = A1'',
      ''Time Field Chn|'',
      ''--------'',
      ''10:00:00 FieldX 0|1.0 0.0 1.0 0.0 2.0 90.0 2.0 90.0'']"

text \<open>The table of the sample scenario: one header line and one data line.\<close>

definition sample_table :: "string list" where
  "sample_table = [''Ant = A0 Ant = A1'', ''10:00:00 FieldX 0|1.0 0.0F2.0 90.0'']"


text \<open>
  Two sections of two data rows each, where the first data row of the second section
  starts with the token \<^verbatim>\<open>-nbsdfbkj\<close>.
\<close>

definition sections_sentinel :: "string list list" where
  "sections_sentinel =
     [[''Ant = A0'', ''Time Field Chn|'', ''--------|'', ''10:00:00 FieldX 0|1.0 0.0 1.0 0.0'',
       ''10:00:00 FieldX 1|2.0 0.0 2.0 0.0''],
      [''|Ant = A1'', ''Time Field Chn|'', ''--------|'', ''-nbsdfbkj | 3.0 0.0 3.0 0.0'',
       ''10:00:00 FieldX 1| 4.0 0.0 4.0 0.0'']]"

text \<open>Two sections of six and of four lines.\<close>

definition sections_uneven :: "string list list" where
  "sections_uneven =
     [[''Ant = A0'', ''Time Field Chn|'', ''--------|'', ''10:00:00 FieldX 0|1.0 0.0 1.0 0.0'',
       ''10:00:00 FieldX 1|2.0 0.0 2.0 0.0'', ''10:00:00 FieldX 2|5.0 0.0 5.0 0.0''],
      [''|Ant = A1'', ''Time Field Chn|'', ''--------|'', ''10:00:00 FieldX 0| 3.0 0.0 3.0 0.0'']]"

text \<open>A block of two pages with the same header.\<close>

definition block_dup :: "string list" where
  "block_dup =
     [''SpwID = 0'',
      ''Ant = A0'', ''Time Field Chn|'', ''--------|'', ''10:00:00 FieldX 0|1.0 0.0 1.0 0.0'',
      ''Ant = A0'', ''Time Field Chn|'', ''--------|'', ''10:00:00 FieldX 1|2.0 0.0 2.0 0.0'']"






subsection \<open>Rows that start with the sentinel\<close>

text \<open>
  The first token of the line begins with the characters of the sentinel of
  \<^verbatim>\<open>join_sections\<close>: the rows that its skip branch is written for.
\<close>

definition sentinel_led :: "string \<Rightarrow> bool" where
  "sentinel_led M = starts_with ''-nbsdfbkj'' (dropWhile is_space M)"

subsection \<open>Well-formed data lines\<close>








section \<open>Properties\<close>

subsection \<open>Section Extractor and entry point\<close>

lemma marker_indices_empty:
  "(marker_indices m lines = []) = (\<forall>L \<in> set lines. \<not> py_in m L)"
proof
  assume "marker_indices m lines = []"
  then have "\<forall>i < length lines. \<not> py_in m (lines ! i)"
    by (simp add: marker_indices_def filter_empty_conv)
  then show "\<forall>L \<in> set lines. \<not> py_in m L"
    by (auto simp: in_set_conv_nth)
next
  assume "\<forall>L \<in> set lines. \<not> py_in m L"
  then show "marker_indices m lines = []"
    by (simp add: marker_indices_def filter_empty_conv)
qed

text \<open>
  C3, at one input: a report of one data line, with no \<^verbatim>\<open>SpwID\<close> line. The call fails,
  and the exception is the built-in \<open>IndexError\<close> of \<^verbatim>\<open>solutions_split[0]\<close>, not an error
  of the parser's own with a message about the report.
\<close>

theorem extract_solutions_no_marker_counterexample:
  "extract_solutions [''10:00:00 FieldX 0|1.0 0.0 2.0 90.0'' @ [newline]] = Inl IndexError"
  by (simp add: extract_solutions_def marker_indices_def)

text \<open>
  C3, as amended: for every report with no line that contains \<^verbatim>\<open>SpwID\<close>,
  \<^verbatim>\<open>extract_solutions\<close> raises \<open>IndexError\<close>; it returns no list of solutions, empty or
  partial.
\<close>

theorem extract_solutions_no_marker:
  assumes "\<forall>L \<in> set lines. \<not> py_in ''SpwID'' L"
  shows "extract_solutions lines = Inl IndexError"
proof -
  from assms have "marker_indices ''SpwID'' lines = []"
    by (simp add: marker_indices_empty)
  then show ?thesis
    by (simp add: extract_solutions_def)
qed

theorem extract_solutions_no_marker_witness:
  "list_all (\<lambda>L. \<not> py_in ''SpwID'' L) [''Ant = A0'', ''Time Field Chn|'']
   \<and> extract_solutions [''Ant = A0'', ''Time Field Chn|''] = Inl IndexError"
  using extract_solutions_no_marker [of "[''Ant = A0'', ''Time Field Chn|'']"]
  by simp

text \<open>
  C4: on every report with exactly one \<^verbatim>\<open>SpwID\<close> line the Section Extractor returns the
  whole remainder of the text as one block, as the claim says, but
  \<^verbatim>\<open>parse_bandpass_text\<close> does not process it: the block is never bound to \<^verbatim>\<open>sol\<close> and
  the call ends in \<open>UnboundLocalError\<close>.
\<close>

theorem parse_bandpass_text_single_marker:
  assumes "length (marker_indices ''SpwID'' lines) = 1"
  shows "extract_solutions lines = Inr [drop (hd (marker_indices ''SpwID'' lines)) lines]
         \<and> parse_bandpass_text lines = Inl UnboundLocalError"
proof -
  from assms obtain s0 where s0: "marker_indices ''SpwID'' lines = [s0]"
    by (cases "marker_indices ''SpwID'' lines") auto
  have "s0 \<in> set (marker_indices ''SpwID'' lines)"
    by (simp add: s0)
  then have "s0 < length lines"
    by (simp add: marker_indices_def)
  with s0 have ex: "extract_solutions lines = Inr [drop s0 lines]"
    by (simp add: extract_solutions_def slice_from_def slice_bound_def)
  then have "parse_bandpass_text lines = Inl UnboundLocalError"
    by (simp add: parse_bandpass_text_def)
  with ex s0 show ?thesis
    by simp
qed

theorem parse_bandpass_text_single_marker_witness:
  "length (marker_indices ''SpwID'' report1) = 1
   \<and> extract_solutions report1 = Inr [report1]
   \<and> parse_bandpass_text report1 = Inl UnboundLocalError"
  using parse_bandpass_text_single_marker [of report1]
  by (simp add: report1_def marker_indices_def)

subsection \<open>Record Parser: the sample scenario and the token count\<close>

lemmas eval_text =
  Let_def get_antenna_names_def is_alnum_def data_re_match_def non_space_def is_space_def
  is_digit_def line_tokens_def py_split_def newline_def

text \<open>
  C1, at the sample table itself: the parse does not succeed. With two polarizations
  the parser returns \<^verbatim>\<open>None\<close>.
\<close>

theorem caltable_to_dict_sample_counterexample:
  "caltable_to_dict dec_float 2 sample_table = Inr None"
  by (simp add: sample_table_def caltable_to_dict_def eval_text)

text \<open>
  C1, as amended: on the sample table the antenna order is \<^verbatim>\<open>["A0","A1"]\<close> and the data
  line matches with channel \<^verbatim>\<open>0\<close>; deleting the flag character joins \<^verbatim>\<open>0.0\<close> and \<^verbatim>\<open>2.0\<close>
  into the one token \<^verbatim>\<open>0.02.0\<close>, so three tokens are left; three is not
  \<open>2 * 2 * npol\<close> for any \<open>npol\<close>, and the parser returns \<^verbatim>\<open>None\<close> whatever \<^verbatim>\<open>float\<close>
  reads.
\<close>

theorem caltable_to_dict_sample:
  "get_antenna_names sample_table = Inr [''A0'', ''A1'']
   \<and> data_re_match (sample_table ! 1) = Some (''10:00:00'', ''FieldX'', ''0'', ''1.0 0.0F2.0 90.0'')
   \<and> line_tokens ''1.0 0.0F2.0 90.0'' = [''1.0'', ''0.02.0'', ''90.0'']
   \<and> caltable_to_dict pyfloat npol sample_table = Inr None"
proof -
  have names: "get_antenna_names sample_table = Inr [''A0'', ''A1'']"
    by (simp add: sample_table_def eval_text)
  have head: "data_re_match ''Ant = A0 Ant = A1'' = None"
    by (simp add: eval_text)
  have row: "data_re_match ''10:00:00 FieldX 0|1.0 0.0F2.0 90.0''
               = Some (''10:00:00'', ''FieldX'', ''0'', ''1.0 0.0F2.0 90.0'')"
    by (simp add: eval_text)
  have toks: "line_tokens ''1.0 0.0F2.0 90.0'' = [''1.0'', ''0.02.0'', ''90.0'']"
    by (simp add: eval_text)
  have "(3::nat) \<noteq> 2 * 2 * npol"
    by presburger
  then have "parse_lines pyfloat npol (length [''A0'', ''A1'']) sample_table = Inr None"
    by (simp add: sample_table_def head row toks)
  with names have "caltable_to_dict pyfloat npol sample_table = Inr None"
    by (simp add: caltable_to_dict_def)
  with names row toks show ?thesis
    by (simp add: sample_table_def)
qed

theorem caltable_to_dict_sample_witness:
  "caltable_to_dict dec_float 1 sample_table = Inr None"
  using caltable_to_dict_sample [of dec_float 1] by simp







subsection \<open>Section Joiner\<close>

lemma join_rows_zip:
  assumes "list_all (\<lambda>M. CHR ''|'' \<in> set M \<and> \<not> sentinel_led M) (take (length s0) s1)"
  shows "join_rows s0 s1 = Inr (map2 (\<lambda>L M. L @ split_bar M ! 1) s0 s1)"
  using assms
proof (induction s0 s1 rule: join_rows.induct)
  case (1 L Ls M Ms)
  then have bar: "CHR ''|'' \<in> set M"
    and rest: "list_all (\<lambda>M. CHR ''|'' \<in> set M \<and> \<not> sentinel_led M) (take (length Ls) Ms)"
    by simp_all
  from bar obtain m0 ms where M: "M = m0 # ms"
    by (cases M) auto
  have "[m0] \<noteq> ''-nbsdfbkj''"
    by simp
  with 1 rest M bar show ?case
    by (simp add: split_bar_def)
qed simp_all

text \<open>
  C5: a row of the second section whose leading token is \<^verbatim>\<open>-nbsdfbkj\<close> is not skipped.
  The test compares \<^verbatim>\<open>M[0]\<close>, one character, with the nine characters of the sentinel,
  so it is never true: the row is merged like any other, and the merged row is the first
  line followed by what stands after the first bar of the second.
\<close>

theorem join_rows_sentinel_merged:
  "join_rows (L # Ls) ((''-nbsdfbkj |'' @ r) # Ms)
     = (case join_rows Ls Ms of Inl e \<Rightarrow> Inl e | Inr table \<Rightarrow> Inr ((L @ r) # table))"
  by (simp add: split_bar_def)

theorem join_rows_sentinel_merged_witness:
  "join_sections sections_sentinel =
     Inr [''Ant = A0Ant = A1'', ''Time Field Chn|'',
          ''10:00:00 FieldX 0|1.0 0.0 1.0 0.0 3.0 0.0 3.0 0.0'',
          ''10:00:00 FieldX 1|2.0 0.0 2.0 0.0 4.0 0.0 4.0 0.0'']"
  using join_rows_sentinel_merged
          [of "''10:00:00 FieldX 0|1.0 0.0 1.0 0.0''" "[''10:00:00 FieldX 1|2.0 0.0 2.0 0.0'']"
              "'' 3.0 0.0 3.0 0.0''" "[''10:00:00 FieldX 1| 4.0 0.0 4.0 0.0'']"]
  by (simp add: sections_sentinel_def split_bar_def slice_to_def slice_from_def slice_bound_def)

text \<open>
  C6, at one input: a first section of six lines and a second of four. The join raises
  nothing and returns a table cut to the shorter section: channels 1 and 2 are gone.
\<close>

theorem join_sections_uneven_counterexample:
  "join_sections sections_uneven =
     Inr [''Ant = A0Ant = A1'', ''Time Field Chn|'',
          ''10:00:00 FieldX 0|1.0 0.0 1.0 0.0 3.0 0.0 3.0 0.0'']"
  by (simp add: sections_uneven_def split_bar_def slice_to_def slice_from_def slice_bound_def)

text \<open>
  C6, as amended: for every pair of sections, of equal row counts or not, in which each
  paired line of the second section has a bar and does not start with the sentinel, the
  merge pairs the lines by position up to the end of the shorter section and raises
  nothing: the merged section has \<open>min (length s0) (length s1)\<close> rows, and the join goes on
  with it. Rows that start with the sentinel are left out of the statement.
\<close>

theorem join_sections_truncates:
  assumes "list_all (\<lambda>M. CHR ''|'' \<in> set M \<and> \<not> sentinel_led M) (take (length s0) s1)"
  shows "join_rows s0 s1 = Inr (map2 (\<lambda>L M. L @ split_bar M ! 1) s0 s1)
         \<and> length (map2 (\<lambda>L M. L @ split_bar M ! 1) s0 s1) = min (length s0) (length s1)
         \<and> join_sections (s0 # s1 # rest)
             = join_sections (map2 (\<lambda>L M. L @ split_bar M ! 1) s0 s1 # rest)"
  using join_rows_zip [OF assms] by simp

theorem join_sections_truncates_witness:
  "list_all (\<lambda>M. CHR ''|'' \<in> set M \<and> \<not> sentinel_led M)
     (take (length (sections_uneven ! 0)) (sections_uneven ! 1))
   \<and> length (sections_uneven ! 0) = 6 \<and> length (sections_uneven ! 1) = 4
   \<and> join_rows (sections_uneven ! 0) (sections_uneven ! 1)
       = Inr [''Ant = A0Ant = A1'', ''Time Field Chn|'', ''--------|'',
              ''10:00:00 FieldX 0|1.0 0.0 1.0 0.0 3.0 0.0 3.0 0.0'']"
  using join_sections_truncates [of "sections_uneven ! 0" "sections_uneven ! 1" "[]"]
  by (simp add: sections_uneven_def split_bar_def sentinel_led_def is_space_def)

subsection \<open>Header Deduplicator\<close>

lemma header_slice:
  assumes "i < length sol"
  shows "get_antenna_names (slice_from sol (int i - 1))
           = Inr (antenna_names_of (if i = 0 then last sol else sol ! (i - 1)))"
proof (cases "i = 0")
  case True
  from assms have "sol \<noteq> []" by auto
  then have "drop (length sol - 1) sol = [last sol]"
    by (cases sol rule: rev_cases) auto
  with True assms show ?thesis
    by (simp add: slice_from_def slice_bound_def get_antenna_names_def nat_diff_distrib')
next
  case False
  with assms have "drop (i - 1) sol = sol ! (i - 1) # drop (Suc (i - 1)) sol"
    by (intro Cons_nth_drop_Suc [symmetric]) simp
  with False have "drop (i - 1) sol = sol ! (i - 1) # drop i sol"
    by simp
  moreover from False assms have "slice_bound (length sol) (int i - 1) = i - 1"
    by (auto simp: slice_bound_def)
  ultimately show ?thesis
    using False by (simp add: slice_from_def get_antenna_names_def)
qed

lemma find_duplicate_total: "\<exists>x. find_duplicate sol j lh = Inr x"
proof (induction sol j lh rule: find_duplicate.induct)
  case (1 sol j lh)
  show ?case
  proof (cases "length sol \<le> j")
    case True
    then show ?thesis
      by (simp add: find_duplicate.simps [of sol j lh])
  next
    case inside: False
    then have hd: "get_antenna_names (slice_from sol (int j - 1))
                     = Inr (antenna_names_of (if j = 0 then last sol else sol ! (j - 1)))"
      by (simp add: header_slice)
    show ?thesis
    proof (cases "py_in ''Time'' (sol ! j)")
      case False
      with inside "1.IH"(2) show ?thesis
        by (simp add: find_duplicate.simps [of sol j lh])
    next
      case True
      with inside hd "1.IH"(1) [OF inside True hd] show ?thesis
        by (auto simp: find_duplicate.simps [of sol j lh])
    qed
  qed
qed

lemma find_duplicate_default:
  "find_duplicate sol j (Some h) = Inr None \<Longrightarrow> find_duplicate sol j None = Inr None"
proof (induction "length sol - j" arbitrary: j)
  case 0
  then show ?case
    by (simp add: find_duplicate.simps [of sol j])
next
  case (Suc n)
  then have inside: "\<not> length sol \<le> j" and n: "n = length sol - (j + 1)"
    by auto
  then have hd: "get_antenna_names (slice_from sol (int j - 1))
                   = Inr (antenna_names_of (if j = 0 then last sol else sol ! (j - 1)))"
    by (simp add: header_slice)
  show ?case
  proof (cases "py_in ''Time'' (sol ! j)")
    case False
    with inside Suc.prems have "find_duplicate sol (j + 1) (Some h) = Inr None"
      by (simp add: find_duplicate.simps [of sol j])
    from Suc.hyps(1) [OF n this] inside False show ?thesis
      by (simp add: find_duplicate.simps [of sol j])
  next
    case True
    with inside hd Suc.prems show ?thesis
      by (auto simp: find_duplicate.simps [of sol j] split: if_splits)
  qed
qed

lemma excision_shape:
  assumes "1 \<le> i" and "i < length sol"
  shows "slice_to sol (int i - 1) @ slice_from sol (int i + 2) = take (i - 1) sol @ drop (i + 2) sol"
proof -
  from assms have "slice_bound (length sol) (int i - 1) = i - 1"
    by (auto simp: slice_bound_def)
  moreover have "drop (slice_bound (length sol) (int i + 2)) sol = drop (i + 2) sol"
    by (cases "i + 2 \<le> length sol") (auto simp: slice_bound_def nat_add_distrib)
  ultimately show ?thesis
    by (simp add: slice_to_def slice_from_def)
qed

lemma subseq_excision:
  assumes "a \<le> b"
  shows "subseq (take a xs @ drop b xs) xs"
proof -
  from assms have "drop (b - a) (drop a xs) = drop b xs"
    by simp
  then have "drop a xs = take (b - a) (drop a xs) @ drop b xs"
    by (metis append_take_drop_id)
  then have "subseq (drop b xs) (drop a xs)"
    by (metis subseq_drop_many subseq_order.order_refl)
  then have "subseq (take a xs @ drop b xs) (take a xs @ drop a xs)"
    by (simp only: subseq_append')
  then show ?thesis
    by simp
qed

lemma remove_duplicate_heders_result:
  "\<exists>r. remove_duplicate_heders sol lh = Inr r \<and> find_duplicate r 0 None = Inr None
       \<and> (lh = None \<longrightarrow> subseq r sol)"
proof (induction sol lh rule: remove_duplicate_heders.induct)
  case (1 sol lh)
  from find_duplicate_total obtain x where x: "find_duplicate sol 0 lh = Inr x"
    by blast
  show ?case
  proof (cases x)
    case None
    with x have "remove_duplicate_heders sol lh = Inr sol"
      by (simp add: remove_duplicate_heders.simps [of sol lh])
    moreover from None x have "find_duplicate sol 0 None = Inr None"
      by (cases lh) (auto dest: find_duplicate_default)
    ultimately show ?thesis
      by simp
  next
    case (Some i)
    let ?sol' = "slice_to sol (int i - 1) @ slice_from sol (int i + 2)"
    from "1.IH" [OF x Some] obtain r
      where r: "remove_duplicate_heders ?sol' None = Inr r" "find_duplicate r 0 None = Inr None"
               "subseq r ?sol'"
      by auto
    from x Some have step: "remove_duplicate_heders sol lh = remove_duplicate_heders ?sol' None"
      by (simp add: remove_duplicate_heders.simps [of sol lh])
    have "subseq r sol" if "lh = None"
    proof -
      from that x Some find_duplicate_bounds [of sol 0 lh i] have "1 \<le> i" "i < length sol"
        by auto
      then have "?sol' = take (i - 1) sol @ drop (i + 2) sol"
        by (rule excision_shape)
      moreover have "subseq (take (i - 1) sol @ drop (i + 2) sol) sol"
        by (rule subseq_excision) simp
      ultimately show ?thesis
        using r(3) subseq_order.order_trans by fastforce
    qed
    with r step show ?thesis
      by auto
  qed
qed

text \<open>
  C7, at one input: a block whose second header repeats the first. Three lines are
  excised, not two: the header line, the \<^verbatim>\<open>Time\<close> line and the line of dashes after it.
\<close>

theorem remove_duplicate_heders_three_lines_counterexample:
  "remove_duplicate_heders block_dup None =
     Inr [''SpwID = 0'',
          ''Ant = A0'', ''Time Field Chn|'', ''--------|'', ''10:00:00 FieldX 0|1.0 0.0 1.0 0.0'',
          ''10:00:00 FieldX 1|2.0 0.0 2.0 0.0'']"
  by code_simp

text \<open>
  C7, as amended: for every block and every duplicate header that the deduplicator finds,
  at the marker line \<open>i\<close> (with \<open>1 \<le> i\<close>, which always holds when \<^verbatim>\<open>last_header\<close> is left
  at its default), the lines kept are \<^verbatim>\<open>sol[:i-1] + sol[i+2:]\<close>: the three lines \<open>i - 1\<close>,
  \<open>i\<close> and \<open>i + 1\<close> are excised (the header line, the marker line and the line after
  it; two lines when the marker line is the last one), and the deduplicator's result keeps
  the order and the content of the lines it retains: it is a subsequence of the block.
\<close>

theorem remove_duplicate_heders_excision:
  assumes "find_duplicate sol 0 lh = Inr (Some i)" and "lh = None \<or> 1 \<le> i"
  shows "1 \<le> i \<and> i < length sol
         \<and> remove_duplicate_heders sol lh
             = remove_duplicate_heders (take (i - 1) sol @ drop (i + 2) sol) None
         \<and> length (take (i - 1) sol @ drop (i + 2) sol) = length sol - min 3 (length sol - (i - 1))
         \<and> (\<exists>r. remove_duplicate_heders sol lh = Inr r \<and> subseq r sol)"
proof -
  from assms find_duplicate_bounds [OF assms(1)] have i: "1 \<le> i" "i < length sol"
    by auto
  then have shape: "slice_to sol (int i - 1) @ slice_from sol (int i + 2)
                      = take (i - 1) sol @ drop (i + 2) sol"
    by (rule excision_shape)
  with assms(1) have step: "remove_duplicate_heders sol lh
                      = remove_duplicate_heders (take (i - 1) sol @ drop (i + 2) sol) None"
    by (simp add: remove_duplicate_heders.simps [of sol lh])
  from remove_duplicate_heders_result [of "take (i - 1) sol @ drop (i + 2) sol" None]
  obtain r where r: "remove_duplicate_heders (take (i - 1) sol @ drop (i + 2) sol) None = Inr r"
    "subseq r (take (i - 1) sol @ drop (i + 2) sol)"
    by auto
  have "subseq (take (i - 1) sol @ drop (i + 2) sol) sol"
    by (rule subseq_excision) simp
  with r(2) have "subseq r sol"
    by (rule subseq_order.order_trans)
  with i step r(1) show ?thesis
    by auto
qed

theorem remove_duplicate_heders_excision_witness:
  "find_duplicate block_dup 0 None = Inr (Some 6)
   \<and> take (6 - 1) block_dup @ drop (6 + 2) block_dup
       = [''SpwID = 0'', ''Ant = A0'', ''Time Field Chn|'', ''--------|'',
          ''10:00:00 FieldX 0|1.0 0.0 1.0 0.0'', ''10:00:00 FieldX 1|2.0 0.0 2.0 0.0'']
   \<and> remove_duplicate_heders block_dup None
       = remove_duplicate_heders (take (6 - 1) block_dup @ drop (6 + 2) block_dup) None"
proof -
  have found: "find_duplicate block_dup 0 None = Inr (Some 6)"
    by code_simp
  from remove_duplicate_heders_excision [OF found] found show ?thesis
    by (simp add: block_dup_def)
qed

text \<open>
  C9: the deduplicator always returns, and applying it again to its result returns the
  same lines; a block in which the scan finds no duplicate header is returned unchanged.
\<close>

theorem remove_duplicate_heders_idempotent:
  "(\<exists>r. remove_duplicate_heders sol lh = Inr r \<and> remove_duplicate_heders r None = Inr r)
   \<and> (find_duplicate sol 0 None = Inr None \<longrightarrow> remove_duplicate_heders sol None = Inr sol)"
proof -
  from remove_duplicate_heders_result [of sol lh] obtain r
    where r: "remove_duplicate_heders sol lh = Inr r" "find_duplicate r 0 None = Inr None"
    by auto
  from r(2) have "remove_duplicate_heders r None = Inr r"
    by (simp add: remove_duplicate_heders.simps [of r None])
  with r(1) show ?thesis
    by (simp add: remove_duplicate_heders.simps [of sol None])
qed

theorem remove_duplicate_heders_idempotent_witness:
  "remove_duplicate_heders block_dup None = Inr (take 5 block_dup @ drop 8 block_dup)
   \<and> remove_duplicate_heders (take 5 block_dup @ drop 8 block_dup) None
       = Inr (take 5 block_dup @ drop 8 block_dup)
   \<and> find_duplicate (take 5 block_dup @ drop 8 block_dup) 0 None = Inr None"
proof -
  have first: "remove_duplicate_heders block_dup None = Inr (take 5 block_dup @ drop 8 block_dup)"
    by code_simp
  have nodup: "find_duplicate (take 5 block_dup @ drop 8 block_dup) 0 None = Inr None"
    by code_simp
  from remove_duplicate_heders_idempotent [of "take 5 block_dup @ drop 8 block_dup" None] first nodup
  show ?thesis
    by simp
qed

subsection \<open>Record Parser: the gain array\<close>














lemma block_of_nth:
  "a < nants \<Longrightarrow> p < npol \<Longrightarrow> block_of nants npol k vals ! a ! p = vals ! (2 * (a * npol + p) + k)"
  by (simp add: block_of_def)









subsection \<open>Persistence Layer\<close>










end
